theory Spec2Isabelle
  imports Complex_Main
begin

section \<open>Cloudflare DDNS updater: a shallow embedding of cloudflare\_ddns.py\<close>

text \<open>
  The script is one linear pass: rate limiter, public IP lookup, list call with retries,
  decision loop with conditional update calls. Everything it does to the outside world is
  recorded as an event of a trace; everything the outside world answers is a field of the
  record \<open>world\<close>. A run is the pair of its trace and the way the process ends.

  Times are Python floats: a double is modelled by its real value, or is one of
  \<open>inf\<close>, \<open>-inf\<close> and \<open>nan\<close>, and the subtraction \<open>now - last_run\<close> rounds the
  exact difference to the nearest double. The text of the timestamp file is a Python
  \<open>str\<close>: a list of code points. Reading and writing the timestamp file and writing
  to the log are taken to succeed; the set-up of the log file at import time is not
  modelled.
\<close>

subsection \<open>Constants of the module\<close>

definition MIN_SECONDS_BETWEEN_RUNS :: real where
  "MIN_SECONDS_BETWEEN_RUNS = 55"

definition MAX_RETRIES :: nat where
  "MAX_RETRIES = 3"

definition RETRY_BACKOFF_SECONDS :: nat where
  "RETRY_BACKOFF_SECONDS = 5"

subsection \<open>Values, answers of the outside world, events\<close>

text \<open>What \<open>response.json()\<close> returns: a parsed JSON value. An object is the list of
  its items in insertion order.\<close>

datatype json =
    JNull
  | JBool bool
  | JNum real
  | JStr string
  | JArr "json list"
  | JObj "(string \<times> json) list"

datatype py_exn = ValueError | TypeError | KeyError

text \<open>The answer to one HTTP request: an exception of \<open>requests\<close>, or a response with
  its status code, its text and its parsed body (\<open>None\<close> when \<open>response.json()\<close>
  raises).\<close>

datatype http_result =
    Transport_error
  | Response int string "json option"

text \<open>The answer of the resolver: an exception, or the texts of the answer's rdata.\<close>

datatype dns_result =
    Dns_error
  | Dns_answer "string list"

datatype level = INFO | ERROR

datatype log_msg =
    Executing
  | Rate_limit_hit
  | Resolve_error
  | Ip_undetermined
  | Getting_records
  | Api_error string
  | Attempt_failed nat
  | No_records
  | Checking json
  | Updating_record json json string
  | Up_to_date json
  | Not_target json
  | Cf_updating json string
  | Cf_updated json string
  | Cf_update_error

datatype event =
    Log level log_msg
  | WriteStamp real
  | DnsQuery
  | HttpGet nat
  | Sleep nat
  | HttpPut json string json

text \<open>How the process ends: \<open>main\<close> returns, \<open>sys.exit\<close> is called, or an exception
  reaches the top level (the interpreter then exits with code 1).\<close>

datatype outcome =
    Completed
  | SysExit int
  | Uncaught py_exn

fun exit_code :: "outcome \<Rightarrow> int" where
  "exit_code Completed = 0"
| "exit_code (SysExit n) = n"
| "exit_code (Uncaught e) = 1"

text \<open>A Python float: a finite double, given by its value, or an infinity, or not a
  number. The two zeros are one value here: they compare equal and the program only
  subtracts and compares.\<close>

datatype pyfloat = Finite real | PInf | NInf | NaN

text \<open>Rounding a real to the nearest double, ties to even (IEEE 754 binary64). The
  exponent of \<open>x\<close> is the \<open>e\<close> with \<open>2 ^ e \<le> \<bar>x\<bar> < 2 ^ (e + 1)\<close>, kept between
  \<open>-1022\<close> (where the subnormal numbers begin) and \<open>1023\<close>; \<open>binade\<close> searches it upwards
  from \<open>-1022\<close>. The doubles of that exponent are the multiples of \<open>ulp x\<close>, and a
  result of magnitude \<open>2 ^ 1024\<close> or more is an infinity.\<close>

fun binade :: "nat \<Rightarrow> int \<Rightarrow> real \<Rightarrow> int" where
  "binade 0 e x = e"
| "binade (Suc n) e x = (if x < 2 powi (e + 1) then e else binade n (e + 1) x)"

definition exponent :: "real \<Rightarrow> int" where
  "exponent x = binade 2045 (- 1022) \<bar>x\<bar>"

definition round_half_even :: "real \<Rightarrow> int" where
  "round_half_even q =
     (let f = \<lfloor>q\<rfloor> in
      if q - of_int f < 1 / 2 then f
      else if 1 / 2 < q - of_int f then f + 1
      else if even f then f else f + 1)"

definition ulp :: "real \<Rightarrow> real" where
  "ulp x = 2 powi (exponent x - 52)"

definition nearest :: "real \<Rightarrow> real" where
  "nearest x = of_int (round_half_even (x / ulp x)) * ulp x"

definition round_double :: "real \<Rightarrow> pyfloat" where
  "round_double x =
     (let y = nearest x
      in if 2 powi 1024 \<le> \<bar>y\<bar> then (if 0 < y then PInf else NInf) else Finite y)"

text \<open>\<open>now - last_run\<close>, for a finite \<open>now\<close>, and \<open>d < c\<close> for a finite \<open>c\<close>.\<close>

fun fsub :: "real \<Rightarrow> pyfloat \<Rightarrow> pyfloat" where
  "fsub a (Finite b) = round_double (a - b)"
| "fsub a PInf = NInf"
| "fsub a NInf = PInf"
| "fsub a NaN = NaN"

fun flt :: "pyfloat \<Rightarrow> real \<Rightarrow> bool" where
  "flt (Finite x) c = (x < c)"
| "flt NInf c = True"
| "flt PInf c = False"
| "flt NaN c = False"

text \<open>A Python \<open>str\<close> as the list of its code points.\<close>

type_synonym unicode = "nat list"

definition codepoints :: "string \<Rightarrow> unicode" where
  "codepoints s = map of_char s"

text \<open>
  The outside world of one run:
  \<^item> \<open>now\<close>: what \<open>time.time()\<close> returns, a finite double;
  \<^item> \<open>stamp_file\<close>: what \<open>f.read()\<close> returns on \<open>.last_run\<close>, \<open>None\<close> when the file
    does not exist;
  \<^item> \<open>float_of\<close>: Python's built-in \<open>float\<close> on a string, \<open>None\<close> when it raises
    \<open>ValueError\<close>;
  \<^item> \<open>record_name\<close>: \<open>os.getenv('CLOUDFLARE_RECORD_NAME')\<close>;
  \<^item> \<open>dns\<close>: the resolver's answer;
  \<^item> \<open>get_resp a\<close>: the answer to attempt \<open>a\<close> of the list call;
  \<^item> \<open>put_resp i\<close>: the answer to the update call made for the \<open>i\<close>-th listed record.
\<close>

record world =
  now :: real
  stamp_file :: "unicode option"
  float_of :: "unicode \<Rightarrow> pyfloat option"
  record_name :: "string option"
  dns :: dns_result
  get_resp :: "nat \<Rightarrow> http_result"
  put_resp :: "nat \<Rightarrow> http_result"

subsection \<open>Python helpers\<close>

text \<open>\<open>str.strip()\<close> removes the leading and trailing code points that
  \<open>str.isspace\<close> accepts: tab to carriage return, the four separators \<open>U+001C\<close> to
  \<open>U+001F\<close>, the space, \<open>U+0085\<close>, \<open>U+00A0\<close>, \<open>U+1680\<close>, \<open>U+2000\<close> to \<open>U+200A\<close>,
  \<open>U+2028\<close>, \<open>U+2029\<close>, \<open>U+202F\<close>, \<open>U+205F\<close> and \<open>U+3000\<close>.\<close>

definition py_space :: "nat \<Rightarrow> bool" where
  "py_space n =
     ((9 \<le> n \<and> n \<le> 13) \<or> (28 \<le> n \<and> n \<le> 32) \<or> n = 133 \<or> n = 160 \<or> n = 5760
      \<or> (8192 \<le> n \<and> n \<le> 8202) \<or> n = 8232 \<or> n = 8233 \<or> n = 8239 \<or> n = 8287
      \<or> n = 12288)"

definition strip :: "unicode \<Rightarrow> unicode" where
  "strip s = rev (dropWhile py_space (rev (dropWhile py_space s)))"

text \<open>\<open>float(f.read().strip() or 0)\<close>: the empty string is falsy, so \<open>0\<close> is converted
  instead, to \<open>0.0\<close>.\<close>

definition read_last_run :: "(unicode \<Rightarrow> pyfloat option) \<Rightarrow> unicode \<Rightarrow> pyfloat option" where
  "read_last_run fl txt = (let s = strip txt in if s = [] then Some (Finite 0) else fl s)"

text \<open>Truthiness of a parsed JSON value.\<close>

fun py_truthy :: "json \<Rightarrow> bool" where
  "py_truthy JNull = False"
| "py_truthy (JBool b) = b"
| "py_truthy (JNum x) = (x \<noteq> 0)"
| "py_truthy (JStr s) = (s \<noteq> [])"
| "py_truthy (JArr xs) = (xs \<noteq> [])"
| "py_truthy (JObj kvs) = (kvs \<noteq> [])"

fun substring :: "string \<Rightarrow> string \<Rightarrow> bool" where
  "substring p [] = (p = [])"
| "substring p (c # cs) = (take (length p) (c # cs) = p \<or> substring p cs)"

text \<open>\<open>key in v\<close> for a string key: key membership on a dict, element membership on a
  list, substring test on a string, \<open>TypeError\<close> on the rest.\<close>

fun py_in :: "string \<Rightarrow> json \<Rightarrow> py_exn + bool" where
  "py_in k (JObj kvs) = Inr (k \<in> set (map fst kvs))"
| "py_in k (JArr xs) = Inr (JStr k \<in> set xs)"
| "py_in k (JStr s) = Inr (substring k s)"
| "py_in k v = Inl TypeError"

text \<open>\<open>v[key]\<close> for a string key that \<open>key in v\<close> has found: the value on a dict (the
  last item wins), \<open>TypeError\<close> on a list or a string.\<close>

fun py_index :: "json \<Rightarrow> string \<Rightarrow> py_exn + json" where
  "py_index (JObj kvs) k = (case map_of (rev kvs) k of Some v \<Rightarrow> Inr v | None \<Rightarrow> Inl KeyError)"
| "py_index v k = Inl TypeError"

text \<open>The elements a \<open>for\<close> loop sees: those of a list, the keys of a dict, the
  characters of a string; \<open>TypeError\<close> on the rest.\<close>

fun py_iter :: "json \<Rightarrow> py_exn + json list" where
  "py_iter (JArr xs) = Inr xs"
| "py_iter (JObj kvs) = Inr (map (\<lambda>kv. JStr (fst kv)) kvs)"
| "py_iter (JStr s) = Inr (map (\<lambda>c. JStr [c]) s)"
| "py_iter v = Inl TypeError"

text \<open>One element of the argument of \<open>dict(...)\<close> when that is not a dict: it must be
  a sequence of length two whose first component is hashable.\<close>

fun py_hashable :: "json \<Rightarrow> bool" where
  "py_hashable (JArr xs) = False"
| "py_hashable (JObj kvs) = False"
| "py_hashable v = True"

fun py_pair :: "json \<Rightarrow> py_exn + (json \<times> json)" where
  "py_pair (JArr [k, v]) = (if py_hashable k then Inr (k, v) else Inl TypeError)"
| "py_pair (JArr xs) = Inl ValueError"
| "py_pair (JStr [a, b]) = Inr (JStr [a], JStr [b])"
| "py_pair (JStr s) = Inl ValueError"
| "py_pair (JObj [(k1, v1), (k2, v2)]) = Inr (JStr k1, JStr k2)"
| "py_pair (JObj kvs) = Inl ValueError"
| "py_pair v = Inl TypeError"

fun py_pairs :: "json list \<Rightarrow> py_exn + (json \<times> json) list" where
  "py_pairs [] = Inr []"
| "py_pairs (x # xs) =
     (case py_pair x of
        Inl e \<Rightarrow> Inl e
      | Inr p \<Rightarrow> (case py_pairs xs of Inl e \<Rightarrow> Inl e | Inr ps \<Rightarrow> Inr (p # ps)))"

text \<open>\<open>dict(record)\<close>: the items of the new dict, in the order they are stored. A
  record that is a JSON object is copied: \<open>obj_dict\<close> gives its items.\<close>

definition obj_dict :: "(string \<times> json) list \<Rightarrow> (json \<times> json) list" where
  "obj_dict kvs = map (\<lambda>kv. (JStr (fst kv), snd kv)) kvs"

fun py_dict :: "json \<Rightarrow> py_exn + (json \<times> json) list" where
  "py_dict (JObj kvs) = Inr (obj_dict kvs)"
| "py_dict (JArr xs) = py_pairs xs"
| "py_dict (JStr s) = (case py_iter (JStr s) of Inl e \<Rightarrow> Inl e | Inr xs \<Rightarrow> py_pairs xs)"
| "py_dict v = Inl TypeError"

text \<open>\<open>d.get(key)\<close>: \<open>None\<close> (which is also what JSON's null parses to) when the key is
  missing; a later item overrides an earlier one with the same key.\<close>

definition dict_get :: "(json \<times> json) list \<Rightarrow> string \<Rightarrow> json" where
  "dict_get d k = (case map_of (rev d) (JStr k) of Some v \<Rightarrow> v | None \<Rightarrow> JNull)"

text \<open>\<open>v == os.getenv(...)\<close>: the environment gives a string, or \<open>None\<close> when the
  variable is not set.\<close>

fun eq_env :: "json \<Rightarrow> string option \<Rightarrow> bool" where
  "eq_env v None = (v = JNull)"
| "eq_env v (Some s) = (v = JStr s)"

subsection \<open>The rate limiter\<close>

text \<open>\<open>__rate_limit\<close>: \<open>None\<close> when the function returns and the run goes on, the way
  the process ends otherwise.\<close>

definition rate_limit :: "world \<Rightarrow> event list \<times> outcome option" where
  "rate_limit w =
     (case stamp_file w of
        None \<Rightarrow> ([WriteStamp (now w)], None)
      | Some txt \<Rightarrow>
          (case read_last_run (float_of w) txt of
             None \<Rightarrow> ([], Some (Uncaught ValueError))
           | Some last_run \<Rightarrow>
               if flt (fsub (now w) last_run) MIN_SECONDS_BETWEEN_RUNS
               then ([Log INFO Rate_limit_hit], Some (SysExit 0))
               else ([WriteStamp (now w)], None)))"

subsection \<open>The public IP resolver\<close>

text \<open>\<open>__get_public_ip\<close>: the text of the first rdata, \<open>None\<close> after an exception
  and when the answer has no rdata (the function then falls off its end).\<close>

definition get_public_ip :: "world \<Rightarrow> event list \<times> string option" where
  "get_public_ip w =
     (case dns w of
        Dns_error \<Rightarrow> ([DnsQuery, Log ERROR Resolve_error], None)
      | Dns_answer [] \<Rightarrow> ([DnsQuery], None)
      | Dns_answer (rdata # rest) \<Rightarrow> ([DnsQuery], Some rdata))"

subsection \<open>The DNS provider client\<close>

text \<open>The body of the \<open>for attempt in range(1, MAX_RETRIES + 1)\<close> loop, with the
  number of attempts left as the recursion argument. \<open>None\<close>: the loop has ended
  without a \<open>return\<close>.\<close>

fun attempts :: "(nat \<Rightarrow> http_result) \<Rightarrow> nat \<Rightarrow> nat \<Rightarrow> event list \<times> json option" where
  "attempts rs attempt 0 = ([], None)"
| "attempts rs attempt (Suc left) =
     (let failed = (\<lambda>msg.
            (case attempts rs (Suc attempt) left of
               (evs, r) \<Rightarrow>
                 (HttpGet attempt # Log ERROR msg # Sleep (RETRY_BACKOFF_SECONDS * attempt) # evs,
                  r)))
      in case rs attempt of
           Transport_error \<Rightarrow> failed (Attempt_failed attempt)
         | Response status txt body \<Rightarrow>
             if status = 200
             then (case body of
                     Some v \<Rightarrow> ([HttpGet attempt], Some v)
                   | None \<Rightarrow> failed (Attempt_failed attempt))
             else failed (Api_error txt))"

text \<open>\<open>__get_cloudflare_dns_records\<close>: \<open>Inl\<close> is \<open>sys.exit(1)\<close> after the loop.\<close>

definition get_cloudflare_dns_records :: "world \<Rightarrow> event list \<times> (outcome + json)" where
  "get_cloudflare_dns_records w =
     (case attempts (get_resp w) 1 MAX_RETRIES of
        (evs, None) \<Rightarrow> (Log INFO Getting_records # evs, Inl (SysExit 1))
      | (evs, Some v) \<Rightarrow> (Log INFO Getting_records # evs, Inr v))"

text \<open>\<open>__update_cloudflare_dns_record\<close>: one request, no retry; every exception is
  caught, so the function always returns (its result is dropped by \<open>main\<close>).\<close>

definition update_cloudflare_dns_record ::
  "http_result \<Rightarrow> json \<Rightarrow> string \<Rightarrow> json \<Rightarrow> event list \<times> json option" where
  "update_cloudflare_dns_record resp record_id ip_address name =
     (case resp of
        Transport_error \<Rightarrow>
          ([Log INFO (Cf_updating record_id ip_address), HttpPut record_id ip_address name,
            Log ERROR Cf_update_error], None)
      | Response status txt body \<Rightarrow>
          if status = 200
          then (case body of
                  Some v \<Rightarrow>
                    ([Log INFO (Cf_updating record_id ip_address),
                      HttpPut record_id ip_address name,
                      Log INFO (Cf_updated record_id ip_address)], Some v)
                | None \<Rightarrow>
                    ([Log INFO (Cf_updating record_id ip_address),
                      HttpPut record_id ip_address name,
                      Log INFO (Cf_updated record_id ip_address),
                      Log ERROR Cf_update_error], None))
          else ([Log INFO (Cf_updating record_id ip_address),
                 HttpPut record_id ip_address name,
                 Log ERROR Cf_update_error], None))"

subsection \<open>The reconciliation driver\<close>

text \<open>The body of the loop of \<open>main\<close> once \<open>dict(record)\<close> has returned.\<close>

definition decide :: "string option \<Rightarrow> string \<Rightarrow> http_result \<Rightarrow> (json \<times> json) list \<Rightarrow> event list" where
  "decide target public_ip_address resp record_dict =
     (if dict_get record_dict ''type'' = JStr ''A''
      then Log INFO (Checking (dict_get record_dict ''name'')) #
        (if eq_env (dict_get record_dict ''name'') target
            \<and> dict_get record_dict ''content'' \<noteq> JStr public_ip_address
         then Log INFO (Updating_record (dict_get record_dict ''name'')
                          (dict_get record_dict ''content'') public_ip_address) #
              fst (update_cloudflare_dns_record resp (dict_get record_dict ''id'')
                     public_ip_address (dict_get record_dict ''name''))
         else if eq_env (dict_get record_dict ''name'') target
         then [Log INFO (Up_to_date (dict_get record_dict ''name''))]
         else [Log INFO (Not_target (dict_get record_dict ''name''))])
      else [])"

text \<open>\<open>for record in records["result"]\<close>, with the index of the record in the list.\<close>

fun records_loop ::
  "string option \<Rightarrow> string \<Rightarrow> (nat \<Rightarrow> http_result) \<Rightarrow> nat \<Rightarrow> json list \<Rightarrow> event list \<times> outcome" where
  "records_loop target ip resps i [] = ([], Completed)"
| "records_loop target ip resps i (record # rest) =
     (case py_dict record of
        Inl e \<Rightarrow> ([], Uncaught e)
      | Inr record_dict \<Rightarrow>
          (case records_loop target ip resps (Suc i) rest of
             (evs, out) \<Rightarrow> (decide target ip (resps i) record_dict @ evs, out)))"

text \<open>\<open>main\<close> after \<open>__get_cloudflare_dns_records\<close> has returned \<open>records\<close>.\<close>

definition reconcile :: "world \<Rightarrow> string \<Rightarrow> json \<Rightarrow> event list \<times> outcome" where
  "reconcile w ip records =
     (if \<not> py_truthy records then ([Log ERROR No_records], Completed)
      else case py_in ''result'' records of
             Inl e \<Rightarrow> ([], Uncaught e)
           | Inr False \<Rightarrow> ([Log ERROR No_records], Completed)
           | Inr True \<Rightarrow>
               (case py_index records ''result'' of
                  Inl e \<Rightarrow> ([], Uncaught e)
                | Inr result \<Rightarrow>
                    (case py_iter result of
                       Inl e \<Rightarrow> ([], Uncaught e)
                     | Inr xs \<Rightarrow> records_loop (record_name w) ip (put_resp w) 0 xs)))"

text \<open>\<open>main\<close> after \<open>__rate_limit\<close> has returned.\<close>

definition after_rate_limit :: "world \<Rightarrow> event list \<times> outcome" where
  "after_rate_limit w =
     (case get_public_ip w of
        (e1, None) \<Rightarrow> (e1 @ [Log ERROR Ip_undetermined], Completed)
      | (e1, Some ip) \<Rightarrow>
          if ip = [] then (e1 @ [Log ERROR Ip_undetermined], Completed)
          else (case get_cloudflare_dns_records w of
                  (e2, Inl out) \<Rightarrow> (e1 @ e2, out)
                | (e2, Inr records) \<Rightarrow>
                    (case reconcile w ip records of (e3, out) \<Rightarrow> (e1 @ e2 @ e3, out))))"

definition main :: "world \<Rightarrow> event list \<times> outcome" where
  "main w =
     (case rate_limit w of
        (e0, Some out) \<Rightarrow> (Log INFO Executing # e0, out)
      | (e0, None) \<Rightarrow>
          (case after_rate_limit w of (evs, out) \<Rightarrow> (Log INFO Executing # e0 @ evs, out)))"

subsection \<open>Observations on a trace\<close>

fun is_network :: "event \<Rightarrow> bool" where
  "is_network DnsQuery = True"
| "is_network (HttpGet a) = True"
| "is_network (HttpPut rid ip name) = True"
| "is_network e = False"

fun is_update :: "event \<Rightarrow> bool" where
  "is_update (HttpPut rid ip name) = True"
| "is_update e = False"

fun sleep_seconds :: "event \<Rightarrow> nat" where
  "sleep_seconds (Sleep n) = n"
| "sleep_seconds e = 0"

fun is_sleep :: "event \<Rightarrow> bool" where
  "is_sleep (Sleep n) = True"
| "is_sleep e = False"

fun is_list_call :: "event \<Rightarrow> bool" where
  "is_list_call (HttpGet a) = True"
| "is_list_call e = False"

fun is_checking :: "event \<Rightarrow> bool" where
  "is_checking (Log l (Checking name)) = True"
| "is_checking e = False"

definition update_calls :: "event list \<Rightarrow> event list" where
  "update_calls evs = filter is_update evs"

definition total_sleep :: "event list \<Rightarrow> nat" where
  "total_sleep evs = sum_list (map sleep_seconds evs)"

subsection \<open>Conditions on a run\<close>

text \<open>An answer to the list call that is a failure by its status code or by a transport
  error.\<close>

fun failed_response :: "http_result \<Rightarrow> bool" where
  "failed_response Transport_error = True"
| "failed_response (Response status txt body) = (status \<noteq> 200)"

text \<open>A body that is a JSON object without the key \<open>k\<close>.\<close>

fun object_without :: "string \<Rightarrow> json \<Rightarrow> bool" where
  "object_without k (JObj kvs) = (k \<notin> fst ` set kvs)"
| "object_without k v = False"

fun is_uncaught :: "outcome \<Rightarrow> bool" where
  "is_uncaught (Uncaught e) = True"
| "is_uncaught out = False"

text \<open>The run gets past the rate limiter and the resolver gives the non-empty address
  \<open>ip\<close>.\<close>

definition resolves :: "world \<Rightarrow> string \<Rightarrow> bool" where
  "resolves w ip = (snd (rate_limit w) = None \<and> snd (get_public_ip w) = Some ip \<and> ip \<noteq> [])"

text \<open>The list call is made and has no attempt left that returns.\<close>

definition list_exhausted :: "world \<Rightarrow> bool" where
  "list_exhausted w =
     (snd (rate_limit w) = None \<and> snd (get_public_ip w) \<noteq> None \<and> snd (get_public_ip w) \<noteq> Some []
      \<and> snd (attempts (get_resp w) 1 MAX_RETRIES) = None)"

text \<open>The run reaches the list call, and the list call returns \<open>body\<close>.\<close>

definition list_returns :: "world \<Rightarrow> string \<Rightarrow> json \<Rightarrow> bool" where
  "list_returns w ip body = (resolves w ip \<and> snd (get_cloudflare_dns_records w) = Inr body)"

text \<open>The run reaches the decision loop, and the records listed are the JSON objects
  \<open>rs\<close>: the body is an object whose \<open>result\<close> is the array of these objects.\<close>

definition lists_records :: "world \<Rightarrow> string \<Rightarrow> (string \<times> json) list list \<Rightarrow> bool" where
  "lists_records w ip rs =
     (resolves w ip \<and>
      (case snd (get_cloudflare_dns_records w) of
         Inr (JObj kvs) \<Rightarrow> map_of (rev kvs) ''result'' = Some (JArr (map JObj rs))
       | _ \<Rightarrow> False))"

text \<open>The elements the decision loop iterates over, whenever the list call returns a body
  that has them.\<close>

definition listed :: "world \<Rightarrow> json list" where
  "listed w =
     (case snd (get_cloudflare_dns_records w) of
        Inr body \<Rightarrow>
          (case py_index body ''result'' of
             Inr result \<Rightarrow> (case py_iter result of Inr xs \<Rightarrow> xs | Inl e \<Rightarrow> [])
           | Inl e \<Rightarrow> [])
      | Inl out \<Rightarrow> [])"

text \<open>The condition of lines 172 to 177 under which the loop calls the update, and the
  request it then sends.\<close>

definition needs_update :: "string option \<Rightarrow> string \<Rightarrow> (json \<times> json) list \<Rightarrow> bool" where
  "needs_update target ip d =
     (dict_get d ''type'' = JStr ''A'' \<and> eq_env (dict_get d ''name'') target
      \<and> dict_get d ''content'' \<noteq> JStr ip)"

definition update_of :: "string \<Rightarrow> (json \<times> json) list \<Rightarrow> event" where
  "update_of ip d = HttpPut (dict_get d ''id'') ip (dict_get d ''name'')"

definition updates_for :: "string option \<Rightarrow> string \<Rightarrow> (string \<times> json) list list \<Rightarrow> event list" where
  "updates_for target ip rs =
     map (\<lambda>r. update_of ip (obj_dict r)) (filter (\<lambda>r. needs_update target ip (obj_dict r)) rs)"

subsection \<open>Sample runs\<close>

text \<open>Concrete worlds on which the definitions are evaluated. The table \<open>sample_float\<close>
  agrees with Python's \<open>float\<close> on the strings the samples read.\<close>

definition next_after_one :: real where
  "next_after_one = 1 + 1 / 2 ^ 52"

definition sample_float :: "unicode \<Rightarrow> pyfloat option" where
  "sample_float s =
     (if s = codepoints ''980.5'' then Some (Finite 980.5)
      else if s = codepoints ''1.0000000000000002'' then Some (Finite next_after_one)
      else if s = codepoints ''inf'' then Some PInf
      else if s = codepoints ''nan'' then Some NaN
      else None)"

definition home_record :: "(string \<times> json) list" where
  "home_record =
     [(''id'', JStr ''r1''), (''type'', JStr ''A''),
      (''name'', JStr ''home.example.com''), (''content'', JStr ''1.2.3.4'')]"

definition base_world :: world where
  "base_world =
     \<lparr>now = 1000, stamp_file = None, float_of = sample_float,
      record_name = Some ''home.example.com'',
      dns = Dns_answer [''5.6.7.8''],
      get_resp = (\<lambda>a. Response 200 [] (Some (JObj [(''result'', JArr [JObj home_record])]))),
      put_resp = (\<lambda>i. Response 200 [] (Some JNull))\<rparr>"

definition blocked_world :: world where
  "blocked_world = base_world\<lparr>stamp_file := Some (codepoints ''980.5\<newline>'')\<rparr>"

definition edge_world :: world where
  "edge_world =
     base_world\<lparr>now := 56, stamp_file := Some (codepoints ''1.0000000000000002'')\<rparr>"

definition garbage_world :: world where
  "garbage_world = base_world\<lparr>stamp_file := Some (codepoints ''abc'')\<rparr>"

definition blank_world :: world where
  "blank_world = base_world\<lparr>stamp_file := Some [160, 32, 10]\<rparr>"

definition failing_world :: world where
  "failing_world =
     base_world\<lparr>get_resp := (\<lambda>a. if a = 2 then Transport_error else Response 500 ''busy'' None)\<rparr>"

definition same_world :: world where
  "same_world = base_world\<lparr>dns := Dns_answer [''1.2.3.4'']\<rparr>"

definition twin_record :: "(string \<times> json) list" where
  "twin_record =
     [(''id'', JStr ''r2''), (''type'', JStr ''A''),
      (''name'', JStr ''home.example.com''), (''content'', JStr ''9.9.9.9'')]"

definition twin_world :: world where
  "twin_world =
     base_world\<lparr>get_resp := (\<lambda>a. Response 200 []
        (Some (JObj [(''result'', JArr [JObj home_record, JObj twin_record])])))\<rparr>"

definition v6_record :: "(string \<times> json) list" where
  "v6_record =
     [(''id'', JStr ''r3''), (''type'', JStr ''AAAA''),
      (''name'', JStr ''home.example.com''), (''content'', JStr ''::1'')]"

definition v6_world :: world where
  "v6_world =
     base_world\<lparr>get_resp := (\<lambda>a. Response 200 []
        (Some (JObj [(''result'', JArr [JObj v6_record])])))\<rparr>"

definition null_result_world :: world where
  "null_result_world =
     base_world\<lparr>get_resp := (\<lambda>a. Response 200 []
        (Some (JObj [(''success'', JBool True), (''result'', JNull)])))\<rparr>"

definition no_result_world :: world where
  "no_result_world =
     base_world\<lparr>get_resp := (\<lambda>a. Response 200 [] (Some (JObj [(''success'', JBool True)])))\<rparr>"

definition mixed_world :: world where
  "mixed_world =
     base_world\<lparr>get_resp := (\<lambda>a. Response 200 []
        (Some (JObj [(''result'', JArr [JObj v6_record, JObj home_record])])))\<rparr>"

definition no_dns_world :: world where
  "no_dns_world = base_world\<lparr>dns := Dns_error\<rparr>"

section \<open>Properties\<close>

subsection \<open>Rounding to a double\<close>

lemma binade_bounds: "e \<le> binade n e x \<and> binade n e x \<le> e + int n"
proof (induction n arbitrary: e)
  case 0
  then show ?case by simp
next
  case (Suc n)
  from Suc [of "e + 1"] show ?case by auto
qed

lemma binade_upper: "binade n e x = e + int n \<or> x < 2 powi (binade n e x + 1)"
proof (induction n arbitrary: e)
  case 0
  then show ?case by simp
next
  case (Suc n)
  from Suc [of "e + 1"] show ?case by auto
qed

lemma binade_lower: "binade n e x = e \<or> 2 powi (binade n e x) \<le> x"
proof (induction n arbitrary: e)
  case 0
  then show ?case by simp
next
  case (Suc n)
  show ?case
  proof (cases "x < 2 powi (e + 1)")
    case True
    then show ?thesis by simp
  next
    case False
    have "(2::real) powi (e + 1) \<le> 2 powi (binade n (e + 1) x)"
      using binade_bounds [of "e + 1" n x] by (intro power_int_increasing) auto
    with False Suc [of "e + 1"] show ?thesis by auto
  qed
qed

lemma exponent_range: "- 1022 \<le> exponent x \<and> exponent x \<le> 1023"
  using binade_bounds [of "- 1022" 2045 "\<bar>x\<bar>"] by (simp add: exponent_def)

lemma exponent_upper: "exponent x = 1023 \<or> \<bar>x\<bar> < 2 powi (exponent x + 1)"
  using binade_upper [of 2045 "- 1022" "\<bar>x\<bar>"] by (simp add: exponent_def)

lemma exponent_lower: "exponent x = - 1022 \<or> 2 powi (exponent x) \<le> \<bar>x\<bar>"
  using binade_lower [of 2045 "- 1022" "\<bar>x\<bar>"] by (simp add: exponent_def)

lemma exponent_eq:
  assumes "2 powi e \<le> \<bar>x\<bar>" "\<bar>x\<bar> < 2 powi (e + 1)" "- 1022 \<le> e" "e \<le> 1023"
  shows "exponent x = e"
proof (rule ccontr)
  assume ne: "exponent x \<noteq> e"
  show False
  proof (cases "exponent x < e")
    case True
    then have "exponent x \<noteq> 1023" using assms(4) by simp
    with exponent_upper [of x] have "\<bar>x\<bar> < 2 powi (exponent x + 1)" by simp
    also have "(2::real) powi (exponent x + 1) \<le> 2 powi e"
      using True by (intro power_int_increasing) auto
    finally show False using assms(1) by simp
  next
    case False
    with ne have gt: "e + 1 \<le> exponent x" by simp
    then have "exponent x \<noteq> - 1022" using assms(3) by simp
    with exponent_lower [of x] have "2 powi (exponent x) \<le> \<bar>x\<bar>" by simp
    moreover have "(2::real) powi (e + 1) \<le> 2 powi (exponent x)"
      using gt by (intro power_int_increasing) auto
    ultimately show False using assms(2) by simp
  qed
qed

lemma round_half_even_le: "q \<le> of_int m \<Longrightarrow> round_half_even q \<le> m"
  unfolding round_half_even_def Let_def
  by (auto simp: floor_le_iff; linarith)

lemma round_half_even_ge: "of_int m \<le> q \<Longrightarrow> m \<le> round_half_even q"
  unfolding round_half_even_def Let_def
  by (auto simp: le_floor_iff; linarith)

lemma flt_round_double: "flt (round_double x) 55 = (nearest x < 55)"
  by (auto simp: round_double_def Let_def)

lemma ulp_pos: "0 < ulp x"
  by (simp add: ulp_def)

lemma nearest_le:
  assumes "x \<le> c" "c / ulp x = of_int m"
  shows "nearest x \<le> c"
proof -
  have "x / ulp x \<le> c / ulp x"
    using assms(1) ulp_pos [of x] by (intro divide_right_mono) simp_all
  with assms(2) have "round_half_even (x / ulp x) \<le> m"
    by (simp add: round_half_even_le)
  then have "of_int (round_half_even (x / ulp x)) \<le> (of_int m :: real)"
    by (simp only: of_int_le_iff)
  with assms(2) have "of_int (round_half_even (x / ulp x)) \<le> c / ulp x" by simp
  with ulp_pos [of x] show ?thesis
    by (simp add: nearest_def pos_le_divide_eq)
qed

lemma nearest_ge:
  assumes "c \<le> x" "c / ulp x = of_int m"
  shows "c \<le> nearest x"
proof -
  have "c / ulp x \<le> x / ulp x"
    using assms(1) ulp_pos [of x] by (intro divide_right_mono) simp_all
  with assms(2) have "m \<le> round_half_even (x / ulp x)"
    by (simp add: round_half_even_ge)
  then have "(of_int m :: real) \<le> of_int (round_half_even (x / ulp x))"
    by (simp only: of_int_le_iff)
  with assms(2) have "c / ulp x \<le> of_int (round_half_even (x / ulp x))" by simp
  with ulp_pos [of x] show ?thesis
    by (simp add: nearest_def pos_divide_le_eq)
qed

lemma pow2_over_ulp:
  assumes "exponent x \<le> k"
  shows "2 powi k / ulp x = of_int (2 ^ nat (k + 52 - exponent x))"
proof -
  have "(2::real) powi (k - (exponent x - 52)) = 2 powi k / 2 powi (exponent x - 52)"
    by (rule power_int_diff) simp
  moreover have "k - (exponent x - 52) = k + 52 - exponent x" by simp
  ultimately have "2 powi k / ulp x = (2::real) powi (k + 52 - exponent x)"
    by (simp only: ulp_def)
  also have "\<dots> = 2 ^ nat (k + 52 - exponent x)"
    using assms by (intro power_int_nonneg_exp) simp
  finally show ?thesis by simp
qed

lemma round_double_below:
  assumes "x \<le> 55 - 1 / 2 ^ 47"
  shows "flt (round_double x) 55"
proof -
  have "nearest x \<le> 55 - 1 / 2 ^ 47"
  proof (cases "x < 32")
    case True
    show ?thesis
    proof (cases "x \<le> 0")
      case True
      have "0 / ulp x = of_int 0" by simp
      with True have "nearest x \<le> 0" by (rule nearest_le)
      then show ?thesis by simp
    next
      case False
      with True have x: "\<bar>x\<bar> = x" "0 < x" "x < 32" by simp_all
      have e4: "exponent x \<le> 4"
      proof (rule ccontr)
        assume "\<not> exponent x \<le> 4"
        then have e5: "5 \<le> exponent x" by simp
        then have "exponent x \<noteq> - 1022" by simp
        with exponent_lower [of x] x have "2 powi (exponent x) \<le> x" by simp
        moreover have "(2::real) powi 5 \<le> 2 powi (exponent x)"
          using e5 by (intro power_int_increasing) auto
        ultimately show False using x by simp
      qed
      then have "exponent x \<le> 5" by simp
      from pow2_over_ulp [OF this] have "32 / ulp x = of_int (2 ^ nat (5 + 52 - exponent x))"
        by simp
      moreover from x have "x \<le> 32" by simp
      ultimately have "nearest x \<le> 32" by (rule nearest_le [rotated])
      then show ?thesis by simp
    qed
  next
    case False
    with assms have x: "\<bar>x\<bar> = x" "32 \<le> x" "x < 64" by simp_all
    have "exponent x = 5"
      using x by (intro exponent_eq) simp_all
    then have "(55 - 1 / 2 ^ 47) / ulp x = of_int (55 * 2 ^ 47 - 1)"
      by (simp add: ulp_def)
    with assms show ?thesis by (rule nearest_le)
  qed
  then have "nearest x < 55" by simp
  then show ?thesis by (simp add: flt_round_double)
qed

lemma round_double_above:
  assumes "55 \<le> x"
  shows "\<not> flt (round_double x) 55"
proof -
  from assms have x: "\<bar>x\<bar> = x" "32 \<le> x" by simp_all
  have e5: "5 \<le> exponent x"
  proof (rule ccontr)
    assume "\<not> 5 \<le> exponent x"
    then have e4: "exponent x \<le> 4" by simp
    then have "exponent x \<noteq> 1023" by simp
    with exponent_upper [of x] x have "x < 2 powi (exponent x + 1)" by simp
    also have "(2::real) powi (exponent x + 1) \<le> 2 powi 5"
      using e4 by (intro power_int_increasing) auto
    finally show False using x by simp
  qed
  have "55 \<le> nearest x"
  proof (cases "exponent x = 5")
    case True
    then have "55 / ulp x = of_int (55 * 2 ^ 47)" by (simp add: ulp_def)
    with assms show ?thesis by (rule nearest_ge)
  next
    case False
    with e5 have e6: "6 \<le> exponent x" by simp
    then have "exponent x \<noteq> - 1022" by simp
    with exponent_lower [of x] x have le: "2 powi (exponent x) \<le> x" by simp
    have "2 powi (exponent x) / ulp x = of_int (2 ^ nat (exponent x + 52 - exponent x))"
      by (rule pow2_over_ulp) simp
    with le have "2 powi (exponent x) \<le> nearest x" by (rule nearest_ge)
    moreover have "(2::real) powi 6 \<le> 2 powi (exponent x)"
      using e6 by (intro power_int_increasing) auto
    ultimately show ?thesis by simp
  qed
  then have "\<not> nearest x < 55" by simp
  then show ?thesis by (simp add: flt_round_double)
qed

lemma round_double_edge: "round_double (56 - next_after_one) = Finite 55"
proof -
  define x :: real where "x = 56 - next_after_one"
  have x: "x \<le> 55" "32 \<le> \<bar>x\<bar>" "\<bar>x\<bar> < 64" "x * 2 ^ 47 = 55 * 2 ^ 47 - 1 / 2 ^ 5"
    by (simp_all add: x_def next_after_one_def)
  have e: "exponent x = 5"
    using x(2,3) by (intro exponent_eq) simp_all
  then have u: "ulp x = 1 / 2 ^ 47" by (simp add: ulp_def)
  have q: "x / ulp x = 55 * 2 ^ 47 - 1 / 2 ^ 5"
    using x(4) by (simp add: u)
  have f: "\<lfloor>x / ulp x\<rfloor> = 55 * 2 ^ 47 - 1"
    unfolding q by (simp add: floor_eq_iff)
  have "round_half_even (x / ulp x) = 55 * 2 ^ 47"
    unfolding round_half_even_def Let_def f unfolding q by simp
  then have "nearest x = 55" by (simp add: nearest_def u)
  then have "round_double x = Finite 55" by (simp add: round_double_def)
  then show ?thesis unfolding x_def .
qed

subsection \<open>Rate limiter\<close>

lemma rate_limit_blocked:
  assumes "stamp_file w = Some txt"
    and "read_last_run (float_of w) txt = Some t0"
    and "flt (fsub (now w) t0) 55"
  shows "rate_limit w = ([Log INFO Rate_limit_hit], Some (SysExit 0))"
  using assms by (simp add: rate_limit_def MIN_SECONDS_BETWEEN_RUNS_def)

lemma blocked_world_stamp:
  "read_last_run (float_of blocked_world) (codepoints ''980.5\<newline>'') = Some (Finite 980.5)"
  by (simp add: blocked_world_def base_world_def sample_float_def read_last_run_def
      strip_def py_space_def codepoints_def)

lemma blocked_world_blocked:
  "rate_limit blocked_world = ([Log INFO Rate_limit_hit], Some (SysExit 0))"
proof (rule rate_limit_blocked [OF _ blocked_world_stamp])
  show "stamp_file blocked_world = Some (codepoints ''980.5\<newline>'')"
    by (simp add: blocked_world_def)
  have "flt (round_double (1000 - 980.5)) 55"
    by (rule round_double_below) simp
  then show "flt (fsub (now blocked_world) (Finite 980.5)) 55"
    by (simp add: blocked_world_def base_world_def)
qed

text \<open>
  C3, as the code has it: the difference \<open>t1 - t0\<close> is a difference of doubles, rounded
  to the nearest double. When the timestamp file holds a time \<open>t0\<close> and the rounded
  difference is below 55, which is so whenever the exact difference is at most
  \<open>55 - 2 ^ -47\<close> (the double just below 55), the run consists of the two log lines only:
  no DNS query, no HTTP call, and the process ends with \<open>sys.exit(0)\<close>.
\<close>

theorem rate_limited_run_is_silent:
  assumes "stamp_file w = Some txt"
    and "read_last_run (float_of w) txt = Some t0"
    and "flt (fsub (now w) t0) 55 \<or> (t0 = Finite r \<and> now w - r \<le> 55 - 1 / 2 ^ 47)"
  shows "main w = ([Log INFO Executing, Log INFO Rate_limit_hit], SysExit 0)
    \<and> filter is_network (fst (main w)) = []
    \<and> exit_code (snd (main w)) = 0"
proof -
  from assms(3) have "flt (fsub (now w) t0) 55"
    using round_double_below [of "now w - r"] by auto
  with assms(1,2) have "rate_limit w = ([Log INFO Rate_limit_hit], Some (SysExit 0))"
    by (rule rate_limit_blocked)
  then show ?thesis by (simp add: main_def)
qed

theorem rate_limited_run_is_silent_witness:
  "stamp_file blocked_world = Some (codepoints ''980.5\<newline>'')
   \<and> read_last_run (float_of blocked_world) (codepoints ''980.5\<newline>'') = Some (Finite 980.5)
   \<and> now blocked_world - 980.5 \<le> 55 - 1 / 2 ^ 47
   \<and> main blocked_world = ([Log INFO Executing, Log INFO Rate_limit_hit], SysExit 0)
   \<and> filter is_network (fst (main blocked_world)) = []
   \<and> exit_code (snd (main blocked_world)) = 0"
proof -
  have 1: "stamp_file blocked_world = Some (codepoints ''980.5\<newline>'')"
    by (simp add: blocked_world_def)
  have 3: "now blocked_world - 980.5 \<le> 55 - 1 / 2 ^ 47"
    by (simp add: blocked_world_def base_world_def)
  then have "flt (fsub (now blocked_world) (Finite 980.5)) 55
      \<or> (Finite 980.5 = Finite 980.5 \<and> now blocked_world - 980.5 \<le> 55 - 1 / 2 ^ 47)"
    by simp
  from rate_limited_run_is_silent [OF 1 blocked_world_stamp this] 1 blocked_world_stamp 3
  show ?thesis by simp
qed

text \<open>
  C3 as stated (on the exact difference) fails next to the threshold: at time 56 with
  the persisted time \<open>1.0000000000000002\<close>, the double after 1, the exact difference is
  below 55, the difference of doubles is 55.0, and the run proceeds: it rewrites the
  timestamp and makes the DNS query and the HTTP calls.
\<close>

theorem rounded_difference_counterexample:
  "stamp_file edge_world = Some (codepoints ''1.0000000000000002'')
   \<and> read_last_run (float_of edge_world) (codepoints ''1.0000000000000002'')
       = Some (Finite next_after_one)
   \<and> now edge_world - next_after_one < 55
   \<and> fsub (now edge_world) (Finite next_after_one) = Finite 55
   \<and> rate_limit edge_world = ([WriteStamp 56], None)
   \<and> filter is_network (fst (main edge_world)) =
       [DnsQuery, HttpGet 1, HttpPut (JStr ''r1'') ''5.6.7.8'' (JStr ''home.example.com'')]"
proof -
  have 1: "stamp_file edge_world = Some (codepoints ''1.0000000000000002'')"
    by (simp add: edge_world_def)
  have 2: "read_last_run (float_of edge_world) (codepoints ''1.0000000000000002'')
       = Some (Finite next_after_one)"
    by (simp add: edge_world_def base_world_def sample_float_def read_last_run_def
        strip_def py_space_def codepoints_def)
  have 3: "now edge_world - next_after_one < 55"
    by (simp add: edge_world_def base_world_def next_after_one_def)
  have 4: "fsub (now edge_world) (Finite next_after_one) = Finite 55"
    by (simp add: edge_world_def base_world_def round_double_edge)
  from 1 2 4 have 5: "rate_limit edge_world = ([WriteStamp 56], None)"
    by (simp add: rate_limit_def MIN_SECONDS_BETWEEN_RUNS_def)
      (simp add: edge_world_def base_world_def)
  have 6: "after_rate_limit edge_world =
      ([DnsQuery, Log INFO Getting_records, HttpGet 1,
        Log INFO (Checking (JStr ''home.example.com'')),
        Log INFO (Updating_record (JStr ''home.example.com'') (JStr ''1.2.3.4'') ''5.6.7.8''),
        Log INFO (Cf_updating (JStr ''r1'') ''5.6.7.8''),
        HttpPut (JStr ''r1'') ''5.6.7.8'' (JStr ''home.example.com''),
        Log INFO (Cf_updated (JStr ''r1'') ''5.6.7.8'')], Completed)"
    by (simp add: edge_world_def base_world_def after_rate_limit_def get_public_ip_def
        get_cloudflare_dns_records_def MAX_RETRIES_def numeral_3_eq_3 reconcile_def
        decide_def update_cloudflare_dns_record_def home_record_def obj_dict_def dict_get_def)
  have "filter is_network (fst (main edge_world)) =
       [DnsQuery, HttpGet 1, HttpPut (JStr ''r1'') ''5.6.7.8'' (JStr ''home.example.com'')]"
    by (simp add: main_def 5 6)
  with 1 2 3 4 5 show ?thesis by simp
qed

lemma rate_limit_proceeds:
  "snd (rate_limit w) = None \<Longrightarrow> rate_limit w = ([WriteStamp (now w)], None)"
  by (auto simp: rate_limit_def split: option.splits if_splits)

text \<open>
  C4: when the rate limiter lets the run proceed, the trace of the run starts with the
  "executing" log line and the write of the current time to the timestamp file; every
  DNS or HTTP event comes after it. This holds whatever the resolver and the two HTTP
  calls answer in the rest of the run, so a run that fails later has written the
  timestamp all the same.
\<close>

theorem stamp_written_before_network:
  assumes "snd (rate_limit w) = None"
  shows "fst (main (w\<lparr>dns := d, get_resp := g, put_resp := p\<rparr>)) =
           Log INFO Executing # WriteStamp (now w)
             # fst (after_rate_limit (w\<lparr>dns := d, get_resp := g, put_resp := p\<rparr>))"
proof -
  have "rate_limit (w\<lparr>dns := d, get_resp := g, put_resp := p\<rparr>) = rate_limit w"
    by (simp add: rate_limit_def split: option.splits)
  with rate_limit_proceeds [OF assms] show ?thesis
    by (simp add: main_def split_beta)
qed

theorem stamp_written_before_network_witness:
  "snd (rate_limit base_world) = None
   \<and> fst (main (base_world\<lparr>dns := Dns_error, get_resp := (\<lambda>a. Transport_error),
                  put_resp := (\<lambda>i. Transport_error)\<rparr>)) =
       [Log INFO Executing, WriteStamp 1000, DnsQuery, Log ERROR Resolve_error,
        Log ERROR Ip_undetermined]"
  using stamp_written_before_network [where w = base_world and d = Dns_error
      and g = "\<lambda>a. Transport_error" and p = "\<lambda>i. Transport_error"]
  by (simp add: base_world_def rate_limit_def after_rate_limit_def get_public_ip_def)

text \<open>
  C5, as the code has it: when the timestamp file is absent the rate limiter writes the
  current time and lets the run proceed. When the file holds only whitespace, the
  last-run time is taken as zero: the run proceeds when the current time is at least 55
  seconds, and is stopped when the current time is at most \<open>55 - 2 ^ -47\<close>, the double
  just below 55.
\<close>

theorem absent_or_blank_stamp:
  "rate_limit (w\<lparr>stamp_file := None\<rparr>) = ([WriteStamp (now w)], None)
   \<and> (strip txt = [] \<longrightarrow>
        read_last_run (float_of w) txt = Some (Finite 0)
        \<and> (55 \<le> now w \<longrightarrow>
             rate_limit (w\<lparr>stamp_file := Some txt\<rparr>) = ([WriteStamp (now w)], None))
        \<and> (now w \<le> 55 - 1 / 2 ^ 47 \<longrightarrow>
             rate_limit (w\<lparr>stamp_file := Some txt\<rparr>) =
               ([Log INFO Rate_limit_hit], Some (SysExit 0))))"
  using round_double_above [of "now w"] round_double_below [of "now w"]
  by (simp add: rate_limit_def read_last_run_def MIN_SECONDS_BETWEEN_RUNS_def)

theorem absent_or_blank_stamp_witness:
  "rate_limit (base_world\<lparr>stamp_file := None\<rparr>) = ([WriteStamp 1000], None)
   \<and> strip [160, 32, 10] = []
   \<and> read_last_run (float_of base_world) [160, 32, 10] = Some (Finite 0)
   \<and> 55 \<le> now base_world
   \<and> rate_limit blank_world = ([WriteStamp 1000], None)"
  using absent_or_blank_stamp [of base_world "[160, 32, 10]"]
  by (simp add: blank_world_def base_world_def strip_def py_space_def)

text \<open>
  C5 as stated fails on a file whose text is not a number: \<open>float\<close> raises
  \<open>ValueError\<close>, nothing catches it, the timestamp is not written and the run does not
  proceed.
\<close>

theorem unparseable_stamp_counterexample:
  "stamp_file garbage_world = Some (codepoints ''abc'')
   \<and> float_of garbage_world (strip (codepoints ''abc'')) = None
   \<and> rate_limit garbage_world = ([], Some (Uncaught ValueError))
   \<and> main garbage_world = ([Log INFO Executing], Uncaught ValueError)"
  by (simp add: garbage_world_def base_world_def sample_float_def main_def rate_limit_def
      read_last_run_def strip_def py_space_def codepoints_def)

subsection \<open>The trace of a run that reaches the decision loop\<close>

lemma update_calls_append: "update_calls (xs @ ys) = update_calls xs @ update_calls ys"
  by (simp add: update_calls_def)

lemma update_calls_decide:
  "update_calls (decide t ip resp d) = (if needs_update t ip d then [update_of ip d] else [])"
  by (simp add: decide_def update_cloudflare_dns_record_def update_calls_def needs_update_def
      update_of_def split: http_result.splits option.splits)

lemma records_loop_objects:
  "snd (records_loop t ip resps i (map JObj rs)) = Completed
   \<and> update_calls (fst (records_loop t ip resps i (map JObj rs))) = updates_for t ip rs"
proof (induction rs arbitrary: i)
  case Nil
  show ?case by (simp add: update_calls_def updates_for_def)
next
  case (Cons r rs)
  from Cons [of "Suc i"] show ?case
    by (simp add: update_calls_append update_calls_decide updates_for_def split_beta)
qed

lemma attempts_no_update: "update_calls (fst (attempts rs a n)) = []"
  by (induction n arbitrary: a)
    (simp_all add: update_calls_def Let_def split_beta split: http_result.splits option.splits)

lemma get_records_no_update: "update_calls (fst (get_cloudflare_dns_records w)) = []"
  using attempts_no_update [of "get_resp w" 1 MAX_RETRIES]
  by (simp add: get_cloudflare_dns_records_def update_calls_def split_beta split: option.splits)

lemma get_public_ip_no_update: "update_calls (fst (get_public_ip w)) = []"
  by (simp add: get_public_ip_def update_calls_def split: dns_result.splits list.splits)

lemma map_of_rev_key: "map_of (rev kvs) k = Some v \<Longrightarrow> k \<in> fst ` set kvs"
  by (metis map_of_eq_None_iff option.distinct(1) set_rev)

lemma reconcile_objects:
  assumes "map_of (rev kvs) ''result'' = Some (JArr (map JObj rs))"
  shows "reconcile w ip (JObj kvs) = records_loop (record_name w) ip (put_resp w) 0 (map JObj rs)"
proof -
  from assms have k: "''result'' \<in> fst ` set kvs" by (rule map_of_rev_key)
  then have ne: "kvs \<noteq> []" by auto
  from assms k ne show ?thesis by (simp add: reconcile_def)
qed

lemma main_lists_records:
  assumes "lists_records w ip rs"
  shows "main w =
     (Log INFO Executing # WriteStamp (now w) # fst (get_public_ip w)
        @ fst (get_cloudflare_dns_records w)
        @ fst (records_loop (record_name w) ip (put_resp w) 0 (map JObj rs)),
      snd (records_loop (record_name w) ip (put_resp w) 0 (map JObj rs)))"
proof -
  from assms obtain kvs where
    rl: "snd (rate_limit w) = None" and
    ip: "snd (get_public_ip w) = Some ip" "ip \<noteq> []" and
    body: "snd (get_cloudflare_dns_records w) = Inr (JObj kvs)" and
    res: "map_of (rev kvs) ''result'' = Some (JArr (map JObj rs))"
    by (auto simp: lists_records_def resolves_def split: sum.splits json.splits)
  from rl have e0: "rate_limit w = ([WriteStamp (now w)], None)"
    by (auto simp: rate_limit_def split: option.splits if_splits)
  from ip body show ?thesis
    by (simp add: main_def e0 after_rate_limit_def reconcile_objects [OF res] split_beta)
qed

lemma update_calls_main:
  assumes "lists_records w ip rs"
  shows "update_calls (fst (main w)) = updates_for (record_name w) ip rs"
  using get_public_ip_no_update [of w] get_records_no_update [of w]
    records_loop_objects [of "record_name w" ip "put_resp w" 0 rs]
  by (simp add: main_lists_records [OF assms] update_calls_def)

subsection \<open>Decision loop\<close>

text \<open>
  C1: when the public IP resolves to \<open>ip\<close> and the list call returns the records
  \<open>xs @ r # ys\<close>, where \<open>r\<close> has type \<open>A\<close>, the configured name and a content other
  than \<open>ip\<close>, the update calls of the run are those for the records before \<open>r\<close>, then
  exactly one call for \<open>r\<close>, then those for the records after \<open>r\<close>. The call for \<open>r\<close>
  carries the content \<open>ip\<close>, the name of \<open>r\<close> and the id of \<open>r\<close> as listed.
\<close>

theorem mismatch_updates_once:
  assumes "lists_records w ip (xs @ r # ys)"
    and "dict_get (obj_dict r) ''type'' = JStr ''A''"
    and "eq_env (dict_get (obj_dict r) ''name'') (record_name w)"
    and "dict_get (obj_dict r) ''content'' \<noteq> JStr ip"
  shows "update_calls (fst (main w)) =
           updates_for (record_name w) ip xs
           @ [HttpPut (dict_get (obj_dict r) ''id'') ip (dict_get (obj_dict r) ''name'')]
           @ updates_for (record_name w) ip ys"
proof -
  from assms(2-4) have "needs_update (record_name w) ip (obj_dict r)"
    by (simp add: needs_update_def)
  then have "updates_for (record_name w) ip (xs @ r # ys) =
      updates_for (record_name w) ip xs @ [update_of ip (obj_dict r)]
      @ updates_for (record_name w) ip ys"
    by (simp add: updates_for_def)
  with update_calls_main [OF assms(1)] show ?thesis
    by (simp add: update_of_def)
qed

theorem mismatch_updates_once_witness:
  "lists_records base_world ''5.6.7.8'' ([] @ home_record # [])
   \<and> dict_get (obj_dict home_record) ''type'' = JStr ''A''
   \<and> eq_env (dict_get (obj_dict home_record) ''name'') (record_name base_world)
   \<and> dict_get (obj_dict home_record) ''content'' \<noteq> JStr ''5.6.7.8''
   \<and> update_calls (fst (main base_world)) =
       [HttpPut (JStr ''r1'') ''5.6.7.8'' (JStr ''home.example.com'')]"
  using mismatch_updates_once [of base_world "''5.6.7.8''" "[]" home_record "[]"]
  by (simp add: lists_records_def resolves_def base_world_def rate_limit_def get_public_ip_def
      get_cloudflare_dns_records_def MAX_RETRIES_def numeral_3_eq_3 home_record_def obj_dict_def dict_get_def
      updates_for_def)

text \<open>
  C2: when the list call returns the records \<open>xs @ r # ys\<close>, where \<open>r\<close> has type \<open>A\<close>,
  the configured name and a content equal to the resolved IP, the update calls of the
  run are those for the other records only: \<open>r\<close> gives the two log lines "checking" and
  "already up to date" and no update call, whatever the update call would be answered.
\<close>

theorem up_to_date_never_writes:
  assumes "lists_records w ip (xs @ r # ys)"
    and "dict_get (obj_dict r) ''type'' = JStr ''A''"
    and "eq_env (dict_get (obj_dict r) ''name'') (record_name w)"
    and "dict_get (obj_dict r) ''content'' = JStr ip"
  shows "update_calls (fst (main w)) =
           updates_for (record_name w) ip xs @ updates_for (record_name w) ip ys
         \<and> decide (record_name w) ip resp (obj_dict r) =
             [Log INFO (Checking (dict_get (obj_dict r) ''name'')),
              Log INFO (Up_to_date (dict_get (obj_dict r) ''name''))]"
proof -
  from assms(4) have "\<not> needs_update (record_name w) ip (obj_dict r)"
    by (simp add: needs_update_def)
  then have "updates_for (record_name w) ip (xs @ r # ys) =
      updates_for (record_name w) ip xs @ updates_for (record_name w) ip ys"
    by (simp add: updates_for_def)
  with update_calls_main [OF assms(1)] have "update_calls (fst (main w)) =
           updates_for (record_name w) ip xs @ updates_for (record_name w) ip ys"
    by simp
  moreover from assms(2-4) have "decide (record_name w) ip resp (obj_dict r) =
             [Log INFO (Checking (dict_get (obj_dict r) ''name'')),
              Log INFO (Up_to_date (dict_get (obj_dict r) ''name''))]"
    by (simp add: decide_def)
  ultimately show ?thesis by simp
qed

theorem up_to_date_never_writes_witness:
  "lists_records same_world ''1.2.3.4'' ([] @ home_record # [])
   \<and> dict_get (obj_dict home_record) ''type'' = JStr ''A''
   \<and> eq_env (dict_get (obj_dict home_record) ''name'') (record_name same_world)
   \<and> dict_get (obj_dict home_record) ''content'' = JStr ''1.2.3.4''
   \<and> update_calls (fst (main same_world)) = []"
  using up_to_date_never_writes [of same_world "''1.2.3.4''" "[]" home_record "[]"]
  by (simp add: lists_records_def resolves_def same_world_def base_world_def rate_limit_def
      get_public_ip_def get_cloudflare_dns_records_def MAX_RETRIES_def numeral_3_eq_3 home_record_def
      obj_dict_def dict_get_def updates_for_def)

subsection \<open>List call\<close>

lemma attempts_failed_step:
  assumes "failed_response (rs a)"
  shows "\<exists>msg. attempts rs a (Suc n) =
     (HttpGet a # Log ERROR msg # Sleep (5 * a) # fst (attempts rs (Suc a) n),
      snd (attempts rs (Suc a) n))"
  using assms
  by (cases "rs a") (simp_all add: Let_def split_beta RETRY_BACKOFF_SECONDS_def)

lemma attempts_all_failed:
  assumes "failed_response (rs 1)" "failed_response (rs 2)" "failed_response (rs 3)"
  shows "\<exists>m1 m2 m3. attempts rs 1 MAX_RETRIES =
     ([HttpGet 1, Log ERROR m1, Sleep 5, HttpGet 2, Log ERROR m2, Sleep 10,
       HttpGet 3, Log ERROR m3, Sleep 15], None)"
proof -
  from assms(1) obtain m1 where s1: "attempts rs 1 (Suc 2) =
     (HttpGet 1 # Log ERROR m1 # Sleep (5 * 1) # fst (attempts rs (Suc 1) 2),
      snd (attempts rs (Suc 1) 2))"
    using attempts_failed_step [of rs 1 2] by blast
  from assms(2) obtain m2 where s2: "attempts rs 2 (Suc 1) =
     (HttpGet 2 # Log ERROR m2 # Sleep (5 * 2) # fst (attempts rs (Suc 2) 1),
      snd (attempts rs (Suc 2) 1))"
    using attempts_failed_step [of rs 2 1] by blast
  from assms(3) obtain m3 where s3: "attempts rs 3 (Suc 0) =
     (HttpGet 3 # Log ERROR m3 # Sleep (5 * 3) # fst (attempts rs (Suc 3) 0),
      snd (attempts rs (Suc 3) 0))"
    using attempts_failed_step [of rs 3 0] by blast
  have n: "Suc 2 = 3" "Suc 1 = 2" "Suc 0 = 1" by simp_all
  from s1 s2 s3 have "attempts rs 1 MAX_RETRIES =
     ([HttpGet 1, Log ERROR m1, Sleep 5, HttpGet 2, Log ERROR m2, Sleep 10,
       HttpGet 3, Log ERROR m3, Sleep 15], None)"
    unfolding MAX_RETRIES_def n by simp
  then show ?thesis by blast
qed

text \<open>
  C6: when the run reaches the list call and each of the three attempts fails (a status
  other than 200, or a transport error), the process ends with \<open>sys.exit(1)\<close>, no update
  call is made, the three attempts are followed by sleeps of 5, 10 and 15 seconds, and
  the sleeps add up to 5 + 10 + 15 seconds.
\<close>

theorem list_failure_is_fatal:
  assumes "resolves w ip"
    and "failed_response (get_resp w 1)"
    and "failed_response (get_resp w 2)"
    and "failed_response (get_resp w 3)"
  shows "snd (main w) = SysExit 1
    \<and> exit_code (snd (main w)) \<noteq> 0
    \<and> update_calls (fst (main w)) = []
    \<and> filter is_list_call (fst (main w)) = [HttpGet 1, HttpGet 2, HttpGet 3]
    \<and> filter is_sleep (fst (main w)) = [Sleep 5, Sleep 10, Sleep 15]
    \<and> total_sleep (fst (main w)) = 5 + 10 + 15"
proof -
  from assms(1) have rl: "rate_limit w = ([WriteStamp (now w)], None)"
    and ip: "snd (get_public_ip w) = Some ip" "ip \<noteq> []"
    by (simp_all add: resolves_def rate_limit_proceeds)
  have ev: "filter is_sleep (fst (get_public_ip w)) = []"
    "filter is_list_call (fst (get_public_ip w)) = []"
    "filter is_update (fst (get_public_ip w)) = []"
    "sum_list (map sleep_seconds (fst (get_public_ip w))) = 0"
    by (simp_all add: get_public_ip_def split: dns_result.splits list.splits)
  from attempts_all_failed [OF assms(2-4)] obtain m1 m2 m3 where
    a: "attempts (get_resp w) 1 MAX_RETRIES =
     ([HttpGet 1, Log ERROR m1, Sleep 5, HttpGet 2, Log ERROR m2, Sleep 10,
       HttpGet 3, Log ERROR m3, Sleep 15], None)"
    by blast
  have g: "get_cloudflare_dns_records w =
     ([Log INFO Getting_records, HttpGet 1, Log ERROR m1, Sleep 5, HttpGet 2,
       Log ERROR m2, Sleep 10, HttpGet 3, Log ERROR m3, Sleep 15], Inl (SysExit 1))"
    unfolding get_cloudflare_dns_records_def a by simp
  from ip have m: "main w =
     (Log INFO Executing # WriteStamp (now w) # fst (get_public_ip w)
        @ [Log INFO Getting_records, HttpGet 1, Log ERROR m1, Sleep 5, HttpGet 2,
           Log ERROR m2, Sleep 10, HttpGet 3, Log ERROR m3, Sleep 15], SysExit 1)"
    by (simp add: main_def rl after_rate_limit_def g split_beta)
  show ?thesis
    by (simp add: m ev update_calls_def total_sleep_def)
qed

theorem list_failure_is_fatal_witness:
  "resolves failing_world ''5.6.7.8''
   \<and> failed_response (get_resp failing_world 1)
   \<and> failed_response (get_resp failing_world 2)
   \<and> failed_response (get_resp failing_world 3)
   \<and> snd (main failing_world) = SysExit 1
   \<and> update_calls (fst (main failing_world)) = []
   \<and> total_sleep (fst (main failing_world)) = 30"
  using list_failure_is_fatal [of failing_world "''5.6.7.8''"]
  by (simp add: failing_world_def base_world_def resolves_def rate_limit_def get_public_ip_def)

text \<open>
  C10: when the list call returns (status 200 and a body that parses) and the body is
  empty or is an object without the key \<open>result\<close>, the run logs the error "no DNS
  records returned" and ends normally: no update call, exit code 0.
\<close>

theorem empty_body_ends_normally:
  assumes "list_returns w ip body"
    and "\<not> py_truthy body \<or> object_without ''result'' body"
  shows "main w =
           (Log INFO Executing # WriteStamp (now w) # fst (get_public_ip w)
              @ fst (get_cloudflare_dns_records w) @ [Log ERROR No_records], Completed)
    \<and> update_calls (fst (main w)) = []
    \<and> exit_code (snd (main w)) = 0"
proof -
  from assms(1) have rl: "rate_limit w = ([WriteStamp (now w)], None)"
    and ip: "snd (get_public_ip w) = Some ip" "ip \<noteq> []"
    and body: "snd (get_cloudflare_dns_records w) = Inr body"
    by (simp_all add: list_returns_def resolves_def rate_limit_proceeds)
  from assms(2) have r: "reconcile w ip body = ([Log ERROR No_records], Completed)"
    by (cases body) (auto simp: reconcile_def image_iff)
  from ip body have m: "main w =
           (Log INFO Executing # WriteStamp (now w) # fst (get_public_ip w)
              @ fst (get_cloudflare_dns_records w) @ [Log ERROR No_records], Completed)"
    by (simp add: main_def rl after_rate_limit_def r split_beta)
  show ?thesis
    using get_public_ip_no_update [of w] get_records_no_update [of w]
    by (simp add: m update_calls_def)
qed

theorem empty_body_ends_normally_witness:
  "list_returns no_result_world ''5.6.7.8'' (JObj [(''success'', JBool True)])
   \<and> object_without ''result'' (JObj [(''success'', JBool True)])
   \<and> main no_result_world =
       ([Log INFO Executing, WriteStamp 1000, DnsQuery, Log INFO Getting_records, HttpGet 1,
         Log ERROR No_records], Completed)
   \<and> update_calls (fst (main no_result_world)) = []
   \<and> exit_code (snd (main no_result_world)) = 0"
  using empty_body_ends_normally [of no_result_world "''5.6.7.8''" "JObj [(''success'', JBool True)]"]
  by (simp add: list_returns_def resolves_def no_result_world_def base_world_def rate_limit_def
      get_public_ip_def get_cloudflare_dns_records_def MAX_RETRIES_def numeral_3_eq_3
      update_calls_def)

subsection \<open>Which records are updated\<close>

lemma records_loop_update_origin:
  "e \<in> set (filter is_update (fst (records_loop t ip resps i recs))) \<Longrightarrow>
   \<exists>r\<in>set recs. \<exists>d. py_dict r = Inr d \<and> needs_update t ip d \<and> e = update_of ip d"
proof (induction recs arbitrary: i)
  case Nil
  then show ?case by simp
next
  case (Cons r recs)
  show ?case
  proof (cases "py_dict r")
    case (Inl x)
    with Cons.prems show ?thesis by simp
  next
    case (Inr d)
    with Cons.prems have "e \<in> set (update_calls (decide t ip (resps i) d))
        \<or> e \<in> set (filter is_update (fst (records_loop t ip resps (Suc i) recs)))"
      by (auto simp: split_beta update_calls_def)
    then show ?thesis
    proof
      assume "e \<in> set (update_calls (decide t ip (resps i) d))"
      then have "needs_update t ip d \<and> e = update_of ip d"
        by (simp add: update_calls_decide split: if_splits)
      with Inr show ?thesis by auto
    next
      assume "e \<in> set (filter is_update (fst (records_loop t ip resps (Suc i) recs)))"
      from Cons.IH [OF this] show ?thesis by auto
    qed
  qed
qed

lemma main_updates_from_loop:
  "filter is_update (fst (main w)) = []
   \<or> (\<exists>ip. snd (get_public_ip w) = Some ip \<and>
        filter is_update (fst (main w)) =
        filter is_update (fst (records_loop (record_name w) ip (put_resp w) 0 (listed w))))"
  using get_public_ip_no_update [of w] get_records_no_update [of w]
  by (auto simp: main_def after_rate_limit_def reconcile_def listed_def rate_limit_def
      update_calls_def split_beta split: option.splits sum.splits bool.splits if_splits)

text \<open>
  C7, as the code has it: in every run, whatever the list response holds, each update
  call is made for a listed record whose type is \<open>A\<close>, whose name equals the configured
  record name and whose content differs from the resolved IP, with that record's id and
  name; so a record of another type or name never leads to an update. The loop has no
  \<open>break\<close>: when the listed records are JSON objects, there is one update call for each
  of them that qualifies, in the order of the list.
\<close>

theorem updates_only_for_target:
  "(\<forall>e\<in>set (update_calls (fst (main w))).
      \<exists>r\<in>set (listed w). \<exists>d ip.
         snd (get_public_ip w) = Some ip \<and> py_dict r = Inr d
         \<and> dict_get d ''type'' = JStr ''A''
         \<and> eq_env (dict_get d ''name'') (record_name w)
         \<and> dict_get d ''content'' \<noteq> JStr ip
         \<and> e = HttpPut (dict_get d ''id'') ip (dict_get d ''name''))
   \<and> (lists_records w ip' rs \<longrightarrow>
        update_calls (fst (main w)) = updates_for (record_name w) ip' rs)"
proof -
  have "\<exists>r\<in>set (listed w). \<exists>d ip.
         snd (get_public_ip w) = Some ip \<and> py_dict r = Inr d
         \<and> dict_get d ''type'' = JStr ''A''
         \<and> eq_env (dict_get d ''name'') (record_name w)
         \<and> dict_get d ''content'' \<noteq> JStr ip
         \<and> e = HttpPut (dict_get d ''id'') ip (dict_get d ''name'')"
    if e: "e \<in> set (update_calls (fst (main w)))" for e
  proof -
    from e have m: "e \<in> set (filter is_update (fst (main w)))"
      by (simp add: update_calls_def)
    then have "filter is_update (fst (main w)) \<noteq> []"
      by (metis empty_iff empty_set)
    with main_updates_from_loop [of w] obtain ip where
      ip: "snd (get_public_ip w) = Some ip" and
      eq: "filter is_update (fst (main w)) =
        filter is_update (fst (records_loop (record_name w) ip (put_resp w) 0 (listed w)))"
      by blast
    from m eq have
      "e \<in> set (filter is_update (fst (records_loop (record_name w) ip (put_resp w) 0 (listed w))))"
      by simp
    from records_loop_update_origin [OF this] ip show ?thesis
      by (auto simp: needs_update_def update_of_def)
  qed
  then show ?thesis
    by (auto simp: update_calls_main)
qed

theorem updates_only_for_target_witness:
  "HttpPut (JStr ''r2'') ''5.6.7.8'' (JStr ''home.example.com'')
     \<in> set (update_calls (fst (main twin_world)))
   \<and> (\<exists>r\<in>set (listed twin_world). \<exists>d ip.
         snd (get_public_ip twin_world) = Some ip \<and> py_dict r = Inr d
         \<and> dict_get d ''type'' = JStr ''A''
         \<and> eq_env (dict_get d ''name'') (record_name twin_world)
         \<and> dict_get d ''content'' \<noteq> JStr ip
         \<and> HttpPut (JStr ''r2'') ''5.6.7.8'' (JStr ''home.example.com'')
             = HttpPut (dict_get d ''id'') ip (dict_get d ''name''))
   \<and> lists_records twin_world ''5.6.7.8'' [home_record, twin_record]
   \<and> update_calls (fst (main twin_world)) =
       updates_for (record_name twin_world) ''5.6.7.8'' [home_record, twin_record]"
proof -
  have l: "lists_records twin_world ''5.6.7.8'' [home_record, twin_record]"
    by (simp add: lists_records_def resolves_def twin_world_def base_world_def rate_limit_def
        get_public_ip_def get_cloudflare_dns_records_def MAX_RETRIES_def numeral_3_eq_3)
  note t = updates_only_for_target [of twin_world "''5.6.7.8''" "[home_record, twin_record]"]
  from t l have u: "update_calls (fst (main twin_world)) =
       updates_for (record_name twin_world) ''5.6.7.8'' [home_record, twin_record]"
    by blast
  have m: "HttpPut (JStr ''r2'') ''5.6.7.8'' (JStr ''home.example.com'')
     \<in> set (update_calls (fst (main twin_world)))"
    unfolding u
    by (simp add: twin_world_def base_world_def updates_for_def home_record_def
        twin_record_def obj_dict_def dict_get_def needs_update_def update_of_def)
  from t m have "\<exists>r\<in>set (listed twin_world). \<exists>d ip.
         snd (get_public_ip twin_world) = Some ip \<and> py_dict r = Inr d
         \<and> dict_get d ''type'' = JStr ''A''
         \<and> eq_env (dict_get d ''name'') (record_name twin_world)
         \<and> dict_get d ''content'' \<noteq> JStr ip
         \<and> HttpPut (JStr ''r2'') ''5.6.7.8'' (JStr ''home.example.com'')
             = HttpPut (dict_get d ''id'') ip (dict_get d ''name'')"
    by blast
  with m l u show ?thesis by blast
qed

text \<open>
  C7 as stated (at most one record is updated in a run) fails when the list response
  holds two \<open>A\<close> records with the configured name and stale contents: both are updated.
\<close>

theorem two_matching_records_counterexample:
  "listed twin_world = [JObj home_record, JObj twin_record]
   \<and> update_calls (fst (main twin_world)) =
       [HttpPut (JStr ''r1'') ''5.6.7.8'' (JStr ''home.example.com''),
        HttpPut (JStr ''r2'') ''5.6.7.8'' (JStr ''home.example.com'')]
   \<and> \<not> length (update_calls (fst (main twin_world))) \<le> 1"
  by (simp add: twin_world_def base_world_def listed_def main_def rate_limit_def
      after_rate_limit_def get_public_ip_def get_cloudflare_dns_records_def MAX_RETRIES_def
      numeral_3_eq_3 reconcile_def decide_def update_cloudflare_dns_record_def
      home_record_def twin_record_def obj_dict_def dict_get_def update_calls_def)

subsection \<open>The "checking record" log line\<close>

lemma checking_decide:
  "filter is_checking (decide t ip resp d) =
     (if dict_get d ''type'' = JStr ''A'' then [Log INFO (Checking (dict_get d ''name''))] else [])"
  by (simp add: decide_def update_cloudflare_dns_record_def
      split: http_result.splits option.splits)

lemma checking_records_loop:
  "filter is_checking (fst (records_loop t ip resps i (map JObj rs))) =
     map (\<lambda>r. Log INFO (Checking (dict_get (obj_dict r) ''name'')))
       (filter (\<lambda>r. dict_get (obj_dict r) ''type'' = JStr ''A'') rs)"
  by (induction rs arbitrary: i) (simp_all add: checking_decide split_beta)

lemma checking_attempts: "filter is_checking (fst (attempts rs a n)) = []"
  by (induction n arbitrary: a)
    (simp_all add: Let_def split_beta split: http_result.splits option.splits)

lemma checking_get_records: "filter is_checking (fst (get_cloudflare_dns_records w)) = []"
  using checking_attempts [of "get_resp w" 1 MAX_RETRIES]
  by (simp add: get_cloudflare_dns_records_def split_beta split: option.splits)

lemma checking_get_public_ip: "filter is_checking (fst (get_public_ip w)) = []"
  by (simp add: get_public_ip_def split: dns_result.splits list.splits)

text \<open>
  C8, as the code has it: the "checking record" log line is inside the test on the type.
  In a run that reaches the decision loop, the "checking" lines of the trace are those
  of the listed records of type \<open>A\<close>, in the order of the list; a record of another
  type gives no event at all, neither a log line nor an action: the loop goes on with
  the next record.
\<close>

theorem checking_logged_for_type_A_only:
  assumes "lists_records w ip rs"
    and "dict_get (obj_dict r) ''type'' \<noteq> JStr ''A''"
  shows "filter is_checking (fst (main w)) =
           map (\<lambda>r. Log INFO (Checking (dict_get (obj_dict r) ''name'')))
             (filter (\<lambda>r. dict_get (obj_dict r) ''type'' = JStr ''A'') rs)
    \<and> records_loop t ip' resps i (JObj r # rest) = records_loop t ip' resps (Suc i) rest"
proof -
  have "filter is_checking (fst (main w)) =
           map (\<lambda>r. Log INFO (Checking (dict_get (obj_dict r) ''name'')))
             (filter (\<lambda>r. dict_get (obj_dict r) ''type'' = JStr ''A'') rs)"
    by (simp add: main_lists_records [OF assms(1)] checking_get_public_ip
        checking_get_records checking_records_loop)
  moreover from assms(2) have
    "records_loop t ip' resps i (JObj r # rest) = records_loop t ip' resps (Suc i) rest"
    by (simp add: decide_def split_beta)
  ultimately show ?thesis by simp
qed

theorem checking_logged_for_type_A_only_witness:
  "lists_records mixed_world ''5.6.7.8'' [v6_record, home_record]
   \<and> dict_get (obj_dict v6_record) ''type'' \<noteq> JStr ''A''
   \<and> filter is_checking (fst (main mixed_world)) =
       [Log INFO (Checking (JStr ''home.example.com''))]
   \<and> records_loop None [] (\<lambda>i. Transport_error) 0 [JObj v6_record] = ([], Completed)"
  using checking_logged_for_type_A_only [of mixed_world "''5.6.7.8''" "[v6_record, home_record]"
      v6_record None "[]" "\<lambda>i. Transport_error" 0 "[]"]
  by (simp add: lists_records_def resolves_def mixed_world_def base_world_def rate_limit_def
      get_public_ip_def get_cloudflare_dns_records_def MAX_RETRIES_def numeral_3_eq_3
      home_record_def v6_record_def obj_dict_def dict_get_def)

text \<open>
  C8 as stated (the "checking" line is logged for every record, whatever its type) fails
  on a list response whose only record has type \<open>AAAA\<close>: nothing is logged for it.
\<close>

theorem other_type_not_logged_counterexample:
  "listed v6_world = [JObj v6_record]
   \<and> main v6_world =
       ([Log INFO Executing, WriteStamp 1000, DnsQuery, Log INFO Getting_records, HttpGet 1],
        Completed)
   \<and> filter is_checking (fst (main v6_world)) = []"
  by (simp add: v6_world_def base_world_def listed_def main_def rate_limit_def
      after_rate_limit_def get_public_ip_def get_cloudflare_dns_records_def MAX_RETRIES_def
      numeral_3_eq_3 reconcile_def decide_def v6_record_def obj_dict_def dict_get_def)

subsection \<open>Exit codes\<close>

lemma records_loop_outcome:
  "snd (records_loop t ip resps i recs) = Completed \<or> is_uncaught (snd (records_loop t ip resps i recs))"
  by (induction recs arbitrary: i) (simp_all add: split_beta split: sum.splits)

lemma records_loop_outcome_resps:
  "snd (records_loop t ip resps i recs) = snd (records_loop t ip resps' i recs)"
  by (induction recs arbitrary: i) (simp_all add: split_beta split: sum.splits)

lemma reconcile_outcome:
  "snd (reconcile w ip body) = Completed \<or> is_uncaught (snd (reconcile w ip body))"
  using records_loop_outcome
  by (simp add: reconcile_def split: sum.splits bool.splits)

lemma reconcile_outcome_put:
  "snd (reconcile (w\<lparr>put_resp := p\<rparr>) ip body) = snd (reconcile w ip body)"
  using records_loop_outcome_resps [of "record_name w" ip p 0 _ "put_resp w"]
  by (simp add: reconcile_def split: sum.splits bool.splits)

lemma main_outcome_put: "snd (main (w\<lparr>put_resp := p\<rparr>)) = snd (main w)"
proof -
  have 1: "rate_limit (w\<lparr>put_resp := p\<rparr>) = rate_limit w"
    by (simp add: rate_limit_def split: option.splits)
  have 2: "get_public_ip (w\<lparr>put_resp := p\<rparr>) = get_public_ip w"
    by (simp add: get_public_ip_def)
  have 3: "get_cloudflare_dns_records (w\<lparr>put_resp := p\<rparr>) = get_cloudflare_dns_records w"
    by (simp add: get_cloudflare_dns_records_def)
  show ?thesis
    by (simp add: main_def after_rate_limit_def 1 2 3 reconcile_outcome_put split_beta
        split: option.splits sum.splits)
qed

lemma get_records_outcome:
  "snd (get_cloudflare_dns_records w) = Inl out \<longleftrightarrow>
     out = SysExit 1 \<and> snd (attempts (get_resp w) 1 MAX_RETRIES) = None"
  by (auto simp: get_cloudflare_dns_records_def split_beta split: option.splits)

lemma get_records_returns:
  "snd (get_cloudflare_dns_records w) = Inr b \<longleftrightarrow>
     snd (attempts (get_resp w) 1 MAX_RETRIES) = Some b"
  by (auto simp: get_cloudflare_dns_records_def split_beta split: option.splits)

lemma reconcile_not_exit: "snd (reconcile w ip body) \<noteq> SysExit n"
  using reconcile_outcome [of w ip body] by auto

lemma rate_limit_outcome:
  "snd (rate_limit w) = None \<or> snd (rate_limit w) = Some (SysExit 0)
   \<or> snd (rate_limit w) = Some (Uncaught ValueError)"
  by (simp add: rate_limit_def split: option.splits)

lemma main_exit_1: "(snd (main w) = SysExit 1) = list_exhausted w"
  using rate_limit_outcome [of w]
  by (auto simp: main_def after_rate_limit_def list_exhausted_def split_beta
      get_records_outcome get_records_returns reconcile_not_exit
      split: option.splits sum.splits)

lemma main_exit_code:
  "(exit_code (snd (main w)) \<noteq> 0) = (list_exhausted w \<or> is_uncaught (snd (main w)))"
proof (cases "snd (main w)")
  case Completed
  with main_exit_1 [of w] show ?thesis by simp
next
  case (SysExit n)
  have "n = 0 \<or> n = 1"
    using rate_limit_outcome [of w] SysExit
    by (auto simp: main_def after_rate_limit_def split_beta get_records_outcome
        get_records_returns reconcile_not_exit split: option.splits sum.splits if_splits)
  with SysExit main_exit_1 [of w] show ?thesis by auto
next
  case (Uncaught e)
  then show ?thesis by simp
qed

text \<open>
  C9, as the code has it: the exit code is 0 on a rate-limit short-circuit, when the
  public IP cannot be determined, and when the decision loop runs to its end, whatever
  the update calls are answered (the answers to the update calls never change the way
  the process ends). The process ends with \<open>sys.exit(1)\<close> exactly when the list call
  has used up its retries. A non-zero exit code has one of two causes: the list call has
  used up its retries, or an exception has reached the top level.
\<close>

theorem exit_code_of_run:
  assumes "snd (rate_limit w1) = Some (SysExit 0)"
    and "snd (rate_limit w2) = None"
    and "snd (get_public_ip w2) = None \<or> snd (get_public_ip w2) = Some []"
    and "lists_records w3 ip rs"
  shows "exit_code (snd (main w1)) = 0
    \<and> exit_code (snd (main w2)) = 0
    \<and> exit_code (snd (main (w3\<lparr>put_resp := p\<rparr>))) = 0
    \<and> snd (main (w\<lparr>put_resp := p\<rparr>)) = snd (main w)
    \<and> (snd (main w) = SysExit 1) = list_exhausted w
    \<and> (exit_code (snd (main w)) \<noteq> 0) = (list_exhausted w \<or> is_uncaught (snd (main w)))"
proof -
  from assms(1) have 1: "exit_code (snd (main w1)) = 0"
    by (simp add: main_def split_beta)
  from assms(2,3) have 2: "exit_code (snd (main w2)) = 0"
    by (auto simp: main_def after_rate_limit_def split_beta)
  have "snd (main w3) = Completed"
    using records_loop_objects [of "record_name w3" ip "put_resp w3" 0 rs]
    by (simp add: main_lists_records [OF assms(4)])
  then have 3: "exit_code (snd (main (w3\<lparr>put_resp := p\<rparr>))) = 0"
    by (simp add: main_outcome_put)
  from 1 2 3 show ?thesis
    by (simp add: main_outcome_put main_exit_1 main_exit_code)
qed

theorem exit_code_of_run_witness:
  "snd (rate_limit blocked_world) = Some (SysExit 0)
   \<and> snd (rate_limit no_dns_world) = None
   \<and> snd (get_public_ip no_dns_world) = None
   \<and> lists_records base_world ''5.6.7.8'' [home_record]
   \<and> exit_code (snd (main blocked_world)) = 0
   \<and> exit_code (snd (main no_dns_world)) = 0
   \<and> exit_code (snd (main (base_world\<lparr>put_resp := (\<lambda>i. Response 500 ''no'' None)\<rparr>))) = 0
   \<and> list_exhausted failing_world
   \<and> snd (main failing_world) = SysExit 1"
  using exit_code_of_run [of blocked_world no_dns_world base_world "''5.6.7.8''" "[home_record]"
      "\<lambda>i. Response 500 ''no'' None" failing_world]
  by (simp add: main_def blocked_world_blocked)
    (simp add: no_dns_world_def failing_world_def base_world_def
      rate_limit_def get_public_ip_def lists_records_def resolves_def
      get_cloudflare_dns_records_def MAX_RETRIES_def numeral_3_eq_3 list_exhausted_def
      Let_def)

text \<open>
  C9 as stated (a non-zero exit code only when the list call exhausts its retries) fails
  on a timestamp file that is not a number (no list call is made at all), and on a list
  response whose \<open>result\<close> is \<open>null\<close> (the first attempt of the list call succeeds): an
  uncaught exception ends the process with exit code 1.
\<close>

theorem uncaught_exception_counterexample:
  "exit_code (snd (main garbage_world)) = 1
   \<and> filter is_list_call (fst (main garbage_world)) = []
   \<and> \<not> list_exhausted garbage_world
   \<and> exit_code (snd (main null_result_world)) = 1
   \<and> filter is_list_call (fst (main null_result_world)) = [HttpGet 1]
   \<and> \<not> list_exhausted null_result_world"
  by (simp add: garbage_world_def null_result_world_def base_world_def sample_float_def
      main_def rate_limit_def read_last_run_def strip_def py_space_def codepoints_def
      after_rate_limit_def
      get_public_ip_def get_cloudflare_dns_records_def MAX_RETRIES_def numeral_3_eq_3
      reconcile_def list_exhausted_def)

end
